theory Spec2Isabelle
  imports Main
begin

section \<open>Exceptions, strings and the console\<close>

text \<open>
  The program is the single file \<^verbatim>\<open>nn3.py\<close>. Every raise of the program, and every
  failure of an attribute lookup, an index or a console read, is a value of \<open>exn\<close>.
  \<open>AttributeError c a\<close> is Python's "object of class c has no attribute a".
\<close>

datatype exn =
    AttributeError string string
  | TypeError string
  | IndexError
  | EOFError
  | KeyboardInterrupt

text \<open>
  \<^verbatim>\<open>isinstance(e, Exception)\<close>: what the clause \<^verbatim>\<open>except Exception as e\<close> of
  \<^verbatim>\<open>GameEngine.run\<close> catches. \<^verbatim>\<open>KeyboardInterrupt\<close> derives from
  \<^verbatim>\<open>BaseException\<close> only.
\<close>

fun is_Exception :: "exn \<Rightarrow> bool" where
  "is_Exception KeyboardInterrupt = False"
| "is_Exception _ = True"

definition quoted :: "string \<Rightarrow> string" where
  "quoted s = [CHR 0x27] @ s @ [CHR 0x27]"

text \<open>
  \<^verbatim>\<open>str(e)\<close>, which the f-string of \<^verbatim>\<open>handle_error\<close> formats. For \<^verbatim>\<open>IndexError\<close> it is
  the text of a list index that fits a machine word; no \<^verbatim>\<open>execute\<close> of a module indexes
  the grid, so \<^verbatim>\<open>handle_error\<close> never formats an \<^verbatim>\<open>IndexError\<close>.
\<close>

fun exn_str :: "exn \<Rightarrow> string" where
  "exn_str (AttributeError c a) = quoted c @ '' object has no attribute '' @ quoted a"
| "exn_str (TypeError m) = m"
| "exn_str IndexError = ''list index out of range''"
| "exn_str EOFError = ''EOF when reading a line''"
| "exn_str KeyboardInterrupt = ''''"

text \<open>\<^verbatim>\<open>print(s)\<close> on a standard output held as one string: the text and a newline.\<close>

definition print :: "string \<Rightarrow> string \<Rightarrow> string" where
  "print s out = out @ s @ [CHR 0x0A]"

text \<open>\<^verbatim>\<open>str(n)\<close> for an integer, as the f-strings of \<^verbatim>\<open>add_room\<close> format coordinates.\<close>

fun str_nat :: "nat \<Rightarrow> string" where
  "str_nat n = (if n < 10 then [''0123456789'' ! n]
                else str_nat (n div 10) @ [''0123456789'' ! (n mod 10)])"

declare str_nat.simps [simp del]

definition str_int :: "int \<Rightarrow> string" where
  "str_int i = (if i < 0 then ''-'' @ str_nat (nat (- i)) else str_nat (nat i))"

text \<open>
  \<^verbatim>\<open>str.strip()\<close> and \<^verbatim>\<open>str.lower()\<close> on text whose characters are the code points
  below 256: the white space that \<^verbatim>\<open>strip\<close> removes (with the next-line and the
  no-break space), and the capital letters that \<^verbatim>\<open>lower\<close> maps (A to Z, and the
  accented capitals 192 to 222 but for the multiplication sign 215).
\<close>

definition is_space :: "char \<Rightarrow> bool" where
  "is_space c = (c \<in> set [CHR 0x20, CHR 0x09, CHR 0x0A, CHR 0x0B, CHR 0x0C, CHR 0x0D,
                            CHR 0x1C, CHR 0x1D, CHR 0x1E, CHR 0x1F, CHR 0x85, CHR 0xA0])"

definition strip :: "string \<Rightarrow> string" where
  "strip s = rev (dropWhile is_space (rev (dropWhile is_space s)))"

definition lower_char :: "char \<Rightarrow> char" where
  "lower_char c = (let n = (of_char c :: nat) in
                   if (65 \<le> n \<and> n \<le> 90) \<or> (192 \<le> n \<and> n \<le> 222 \<and> n \<noteq> 215)
                   then char_of (n + 32) else c)"

definition lower :: "string \<Rightarrow> string" where
  "lower s = map lower_char s"

section \<open>Pieces and commands\<close>

text \<open>
  \<^verbatim>\<open>RoomPiece(room_name, description)\<close>. \<^verbatim>\<open>Piece.__init__\<close> stores both values in the
  dictionary \<^verbatim>\<open>self.attributes\<close> under the keys \<^verbatim>\<open>'name'\<close> and \<^verbatim>\<open>'description'\<close>;
  that dictionary is the only attribute the instance has, next to the methods
  \<^verbatim>\<open>describe_room\<close> and \<^verbatim>\<open>update\<close> of its class.
\<close>

datatype piece = RoomPiece string string

text \<open>\<^verbatim>\<open>room_piece.attributes['name']\<close>\<close>

fun attributes_name :: "piece \<Rightarrow> string" where
  "attributes_name (RoomPiece room_name description) = room_name"

text \<open>
  \<^verbatim>\<open>room.name\<close>, as \<^verbatim>\<open>MapGridModule.execute\<close> reads it: neither the instance nor the
  classes \<^verbatim>\<open>RoomPiece\<close> and \<^verbatim>\<open>Piece\<close> define \<open>name\<close>, so the lookup raises.
\<close>

definition room_name_attr :: "piece \<Rightarrow> exn + string" where
  "room_name_attr room = Inl (AttributeError ''RoomPiece'' ''name'')"

text \<open>
  The one concrete \<^verbatim>\<open>Command\<close> of the program. \<^verbatim>\<open>Command.__init__\<close> sets
  \<^verbatim>\<open>self.trigger\<close>, \<^verbatim>\<open>QuitCommand.__init__\<close> passes \<^verbatim>\<open>'quit'\<close> and keeps the engine.
  Its classes define the methods \<^verbatim>\<open>validate\<close> and \<^verbatim>\<open>update\<close>, and no \<^verbatim>\<open>execute\<close>.
\<close>

datatype command = QuitCommand

fun trigger :: "command \<Rightarrow> string" where
  "trigger QuitCommand = ''quit''"

fun command_class :: "command \<Rightarrow> string" where
  "command_class QuitCommand = ''QuitCommand''"

text \<open>\<^verbatim>\<open>Command.validate\<close>\<close>

definition validate :: "command \<Rightarrow> string \<Rightarrow> bool" where
  "validate c user_input = (lower (strip user_input) = trigger c)"

section \<open>The map grid\<close>

text \<open>\<^verbatim>\<open>MapGridModule.Vector\<close>: two coordinates, each an integer or \<^verbatim>\<open>None\<close>.\<close>

datatype Vector = Vector (vx: "int option") (vy: "int option")

definition is_valid :: "Vector \<Rightarrow> bool" where
  "is_valid v = (vx v \<noteq> None \<and> vy v \<noteq> None)"

text \<open>
  \<^verbatim>\<open>MapGridModule\<close>: the two sizes of \<^verbatim>\<open>size_vector\<close> and the list of rows
  \<^verbatim>\<open>map_grid\<close>; a cell is \<^verbatim>\<open>None\<close> or a room.
\<close>

record grid =
  size_x :: int
  size_y :: int
  map_grid :: "piece option list list"

text \<open>\<^verbatim>\<open>MapGridModule.__init__\<close>: \<^verbatim>\<open>range\<close> of a negative size is empty.\<close>

definition MapGridModule_init :: "int \<Rightarrow> int \<Rightarrow> grid" where
  "MapGridModule_init sx sy =
     \<lparr>size_x = sx, size_y = sy, map_grid = replicate (nat sy) (replicate (nat sx) None)\<rparr>"

text \<open>
  A Python list index: \<open>0 .. n-1\<close> address from the front, \<open>-n .. -1\<close> from the back,
  anything else raises \<^verbatim>\<open>IndexError\<close> (here \<open>None\<close>).
\<close>

definition py_index :: "nat \<Rightarrow> int \<Rightarrow> nat option" where
  "py_index n i =
     (if 0 \<le> i \<and> i < int n then Some (nat i)
      else if - int n \<le> i \<and> i < 0 then Some (nat (i + int n))
      else None)"

text \<open>The read \<^verbatim>\<open>self.map_grid[y][x]\<close>.\<close>

definition grid_get :: "piece option list list \<Rightarrow> int \<Rightarrow> int \<Rightarrow> exn + piece option" where
  "grid_get rows y x =
     (case py_index (length rows) y of
        None \<Rightarrow> Inl IndexError
      | Some j \<Rightarrow>
          (case py_index (length (rows ! j)) x of
             None \<Rightarrow> Inl IndexError
           | Some i \<Rightarrow> Inr (rows ! j ! i)))"

text \<open>The assignment \<^verbatim>\<open>self.map_grid[y][x] = v\<close>.\<close>

definition grid_set ::
  "piece option list list \<Rightarrow> int \<Rightarrow> int \<Rightarrow> piece option \<Rightarrow> exn + piece option list list" where
  "grid_set rows y x v =
     (case py_index (length rows) y of
        None \<Rightarrow> Inl IndexError
      | Some j \<Rightarrow>
          (case py_index (length (rows ! j)) x of
             None \<Rightarrow> Inl IndexError
           | Some i \<Rightarrow> Inr (rows[j := (rows ! j)[i := v]])))"

text \<open>
  \<^verbatim>\<open>add_to_first_empty_space\<close>. The inner loop over \<open>x\<close> in one row \<open>y\<close>: \<open>Some rows'\<close>
  is the \<^verbatim>\<open>return True\<close> after the assignment, \<open>None\<close> is the loop running to its end.
\<close>

fun scan_x :: "nat list \<Rightarrow> nat \<Rightarrow> piece \<Rightarrow> piece option list list
    \<Rightarrow> exn + piece option list list option" where
  "scan_x [] y element rows = Inr None"
| "scan_x (x # xs) y element rows =
     (case grid_get rows (int y) (int x) of
        Inl e \<Rightarrow> Inl e
      | Inr None \<Rightarrow>
          (case grid_set rows (int y) (int x) (Some element) of
             Inl e \<Rightarrow> Inl e
           | Inr rows' \<Rightarrow> Inr (Some rows'))
      | Inr (Some other) \<Rightarrow> scan_x xs y element rows)"

text \<open>The outer loop over \<open>y\<close>; the final \<^verbatim>\<open>return False\<close> is \<open>Inr None\<close>.\<close>

fun scan_y :: "nat list \<Rightarrow> nat list \<Rightarrow> piece \<Rightarrow> piece option list list
    \<Rightarrow> exn + piece option list list option" where
  "scan_y [] xs element rows = Inr None"
| "scan_y (y # ys) xs element rows =
     (case scan_x xs y element rows of
        Inl e \<Rightarrow> Inl e
      | Inr (Some rows') \<Rightarrow> Inr (Some rows')
      | Inr None \<Rightarrow> scan_y ys xs element rows)"

definition add_to_first_empty_space :: "piece \<Rightarrow> grid \<Rightarrow> exn + bool \<times> grid" where
  "add_to_first_empty_space element g =
     (case scan_y [0 ..< nat (size_y g)] [0 ..< nat (size_x g)] element (map_grid g) of
        Inl e \<Rightarrow> Inl e
      | Inr (Some rows') \<Rightarrow> Inr (True, g\<lparr>map_grid := rows'\<rparr>)
      | Inr None \<Rightarrow> Inr (False, g))"

text \<open>
  \<^verbatim>\<open>add_room\<close>, on the grid and the standard output. \<open>location\<close> is \<open>None\<close> for
  Python's \<^verbatim>\<open>None\<close>; a \<^verbatim>\<open>Vector\<close> object is truthy. An exception leaves the grid and
  the output as they are at the raise.
\<close>

definition add_room ::
  "piece \<Rightarrow> Vector option \<Rightarrow> grid \<Rightarrow> string \<Rightarrow> exn \<times> grid \<times> string + grid \<times> string" where
  "add_room room_piece location g out =
     (if location \<noteq> None \<and> is_valid (the location) then
        (let x = the (vx (the location)); y = the (vy (the location)) in
         case grid_get (map_grid g) y x of
           Inl e \<Rightarrow> Inl (e, g, out)
         | Inr None \<Rightarrow>
             (case grid_set (map_grid g) y x (Some room_piece) of
                Inl e \<Rightarrow> Inl (e, g, out)
              | Inr rows' \<Rightarrow>
                  Inr (g\<lparr>map_grid := rows'\<rparr>,
                       print (''Room '' @ quoted (attributes_name room_piece) @ '' added at (''
                              @ str_int x @ '', '' @ str_int y @ '').'') out))
         | Inr (Some other) \<Rightarrow>
             Inr (g, print (''Location ('' @ str_int x @ '', '' @ str_int y
                            @ '') is already occupied.'') out))
      else
        (case add_to_first_empty_space room_piece g of
           Inl e \<Rightarrow> Inl (e, g, out)
         | Inr (True, g') \<Rightarrow> Inr (g', out)
         | Inr (False, g') \<Rightarrow>
             Inr (g', print (''Currently there isn'' @ [CHR 0x27] @ ''t any room available inside your grid. Please resize the grid to add more room.'') out)))"

text \<open>\<^verbatim>\<open>remove_room\<close>\<close>

definition remove_room ::
  "Vector option \<Rightarrow> grid \<Rightarrow> string \<Rightarrow> exn \<times> grid \<times> string + grid \<times> string" where
  "remove_room location g out =
     (if location \<noteq> None \<and> is_valid (the location) then
        (let x = the (vx (the location)); y = the (vy (the location)) in
         case grid_get (map_grid g) y x of
           Inl e \<Rightarrow> Inl (e, g, out)
         | Inr None \<Rightarrow> Inr (g, out)
         | Inr (Some room_piece) \<Rightarrow>
             (case grid_set (map_grid g) y x None of
                Inl e \<Rightarrow> Inl (e, g, out)
              | Inr rows' \<Rightarrow>
                  Inr (g\<lparr>map_grid := rows'\<rparr>,
                       print (''Room '' @ quoted (attributes_name room_piece) @ '' removed.'') out)))
      else Inr (g, out))"

text \<open>
  \<^verbatim>\<open>MapGridModule.execute\<close>. The generator \<^verbatim>\<open>room.name if room else "Empty"\<close> for one
  row: the text of each cell, stopping at the first lookup that raises.
\<close>

fun cell_text :: "piece option \<Rightarrow> exn + string" where
  "cell_text None = Inr ''Empty''"
| "cell_text (Some room) = room_name_attr room"

fun row_texts :: "piece option list \<Rightarrow> exn + string list" where
  "row_texts [] = Inr []"
| "row_texts (c # cs) =
     (case cell_text c of
        Inl e \<Rightarrow> Inl e
      | Inr t \<Rightarrow> (case row_texts cs of Inl e \<Rightarrow> Inl e | Inr ts \<Rightarrow> Inr (t # ts)))"

text \<open>\<^verbatim>\<open>sep.join(texts)\<close>\<close>

fun join :: "string \<Rightarrow> string list \<Rightarrow> string" where
  "join sep [] = ''''"
| "join sep [t] = t"
| "join sep (t # ts) = t @ sep @ join sep ts"

text \<open>The loop \<^verbatim>\<open>for row in self.map_grid: print(...)\<close>.\<close>

fun print_rows :: "piece option list list \<Rightarrow> string \<Rightarrow> exn \<times> string + string" where
  "print_rows [] out = Inr out"
| "print_rows (row # rows) out =
     (case row_texts row of
        Inl e \<Rightarrow> Inl (e, out)
      | Inr ts \<Rightarrow> print_rows rows (print (join '' | '' ts) out))"

definition MapGridModule_execute :: "grid \<Rightarrow> string \<Rightarrow> exn \<times> string + string" where
  "MapGridModule_execute g out = print_rows (map_grid g) (print ''Map Grid:'' out)"

section \<open>The engine, its modules and the console\<close>

text \<open>
  The command registry \<^verbatim>\<open>self.commands\<close> of an \<^verbatim>\<open>InputMapModule\<close>: a dictionary from
  trigger to command, as an association list in insertion order.
\<close>

type_synonym registry = "(string \<times> command) list"

text \<open>\<^verbatim>\<open>d[k] = v\<close>: an existing key keeps its place and takes the new value.\<close>

fun dict_set :: "string \<Rightarrow> command \<Rightarrow> registry \<Rightarrow> registry" where
  "dict_set k v [] = [(k, v)]"
| "dict_set k v ((k', v') # kvs) =
     (if k' = k then (k, v) # kvs else (k', v') # dict_set k v kvs)"

text \<open>The concrete subclasses of \<^verbatim>\<open>Module\<close>, each with the attributes of its instance.\<close>

datatype module = MapGridModule grid | InputMapModule registry

text \<open>
  One line of the standard input as \<^verbatim>\<open>input\<close> returns it, or an interrupt from the
  keyboard while \<^verbatim>\<open>input\<close> waits. An empty list is the end of the input.
\<close>

datatype event = Line string | Interrupt

text \<open>
  The attributes of the \<^verbatim>\<open>GameEngine\<close> together with the console of the process. A
  \<^verbatim>\<open>QuitCommand\<close> refers to this engine.
\<close>

record world =
  modules :: "module list"
  running :: bool
  stdin :: "event list"
  stdout :: string

type_synonym outcome = "exn \<times> world + world"

text \<open>\<^verbatim>\<open>GameEngine.__init__\<close>, in a process that has read and written nothing yet.\<close>

definition GameEngine_init :: "event list \<Rightarrow> world" where
  "GameEngine_init evs = \<lparr>modules = [], running = True, stdin = evs, stdout = ''''\<rparr>"

text \<open>
  \<^verbatim>\<open>input(prompt)\<close>: writes the prompt, then returns the next line, or raises
  \<^verbatim>\<open>EOFError\<close> at the end of the input, or \<^verbatim>\<open>KeyboardInterrupt\<close> on an interrupt.
\<close>

definition input :: "string \<Rightarrow> world \<Rightarrow> exn \<times> world + string \<times> world" where
  "input prompt w =
     (let w' = w\<lparr>stdout := stdout w @ prompt\<rparr> in
      case stdin w of
        [] \<Rightarrow> Inl (EOFError, w')
      | Line s # evs \<Rightarrow> Inr (s, w'\<lparr>stdin := evs\<rparr>)
      | Interrupt # evs \<Rightarrow> Inl (KeyboardInterrupt, w'\<lparr>stdin := evs\<rparr>))"

text \<open>
  \<^verbatim>\<open>QuitCommand.update\<close>, the effect of the command. No path of the program calls it.
\<close>

definition QuitCommand_update :: "world \<Rightarrow> world" where
  "QuitCommand_update w = w\<lparr>stdout := print ''Thank you for playing!'' (stdout w), running := False\<rparr>"

text \<open>
  \<^verbatim>\<open>InputMapModule.process_command\<close>. A command object is truthy, so the hit branch
  runs for every registered trigger; there \<^verbatim>\<open>command.execute\<close> is looked up, and no
  class of the command defines it.
\<close>

definition process_command :: "registry \<Rightarrow> string \<Rightarrow> world \<Rightarrow> outcome" where
  "process_command commands user_input w =
     (case map_of commands user_input of
        Some command \<Rightarrow> Inl (AttributeError (command_class command) ''execute'', w)
      | None \<Rightarrow> Inr (w\<lparr>stdout := print ''This command cannot be understood.'' (stdout w)\<rparr>))"

text \<open>
  \<^verbatim>\<open>InputMapModule.execute\<close>: the line is read and normalised, then
  \<^verbatim>\<open>self.handle_input\<close> is looked up, which neither the instance nor a class of it
  defines.
\<close>

definition InputMapModule_execute :: "registry \<Rightarrow> world \<Rightarrow> outcome" where
  "InputMapModule_execute commands w =
     (case input ''>: '' w of
        Inl (e, w') \<Rightarrow> Inl (e, w')
      | Inr (line, w') \<Rightarrow>
          (let user_input = lower (strip line) in
           Inl (AttributeError ''InputMapModule'' ''handle_input'', w')))"

text \<open>\<^verbatim>\<open>module.execute()\<close>, dispatched on the class of the module.\<close>

fun execute :: "module \<Rightarrow> world \<Rightarrow> outcome" where
  "execute (MapGridModule g) w =
     (case MapGridModule_execute g (stdout w) of
        Inl (e, out) \<Rightarrow> Inl (e, w\<lparr>stdout := out\<rparr>)
      | Inr out \<Rightarrow> Inr (w\<lparr>stdout := out\<rparr>))"
| "execute (InputMapModule commands) w = InputMapModule_execute commands w"

text \<open>\<^verbatim>\<open>GameEngine.update_modules\<close>: the loop over the module list.\<close>

fun execute_all :: "module list \<Rightarrow> world \<Rightarrow> outcome" where
  "execute_all [] w = Inr w"
| "execute_all (m # ms) w =
     (case execute m w of Inl ew \<Rightarrow> Inl ew | Inr w' \<Rightarrow> execute_all ms w')"

definition update_modules :: "world \<Rightarrow> outcome" where
  "update_modules w = execute_all (modules w) w"

text \<open>\<^verbatim>\<open>GameEngine.handle_error\<close>\<close>

definition handle_error :: "exn \<Rightarrow> world \<Rightarrow> world" where
  "handle_error message w =
     w\<lparr>stdout := print (''An error occurred: '' @ exn_str message) (stdout w), running := False\<rparr>"

text \<open>
  One pass through the body of the \<^verbatim>\<open>while\<close> loop of \<^verbatim>\<open>run\<close>: the \<^verbatim>\<open>try\<close> around
  \<^verbatim>\<open>update_modules\<close>. \<open>Inl\<close> is an exception that the \<^verbatim>\<open>except\<close> clause does not
  catch and that leaves \<^verbatim>\<open>run\<close>.
\<close>

definition tick :: "world \<Rightarrow> outcome" where
  "tick w =
     (case update_modules w of
        Inr w' \<Rightarrow> Inr w'
      | Inl (e, w') \<Rightarrow> if is_Exception e then Inr (handle_error e w') else Inl (e, w'))"

text \<open>
  The loop \<^verbatim>\<open>while self.running\<close>. It may run forever; \<open>None\<close> is a loop that never
  returns.
\<close>

partial_function (option) run_loop :: "world \<Rightarrow> outcome option" where
  "run_loop w =
     (if running w then
        (case tick w of Inl ew \<Rightarrow> Some (Inl ew) | Inr w' \<Rightarrow> run_loop w')
      else Some (Inr w))"

declare run_loop.simps [code]

definition run :: "world \<Rightarrow> outcome option" where
  "run w = run_loop (w\<lparr>stdout := print (''Game starting. Type '' @ quoted ''quit'' @ '' to exit.'') (stdout w)\<rparr>)"

text \<open>
  The values that \<^verbatim>\<open>add_module\<close> and \<^verbatim>\<open>add_command\<close> can be given: the objects of the
  program's classes, and \<^verbatim>\<open>None\<close>, integers and strings.
\<close>

datatype pyobj =
    ModuleObj module
  | CommandObj command
  | PieceObj piece
  | PlayerPieceObj
  | VectorObj Vector
  | GameEngineObj
  | NoneObj
  | IntObj int
  | StrObj string

text \<open>
  The classes of the program and their base classes: the classes \<^verbatim>\<open>isinstance\<close> holds
  for.
\<close>

fun classes_of :: "pyobj \<Rightarrow> string list" where
  "classes_of (ModuleObj (MapGridModule g)) = [''MapGridModule'', ''Module'']"
| "classes_of (ModuleObj (InputMapModule r)) = [''InputMapModule'', ''Module'']"
| "classes_of (CommandObj QuitCommand) = [''QuitCommand'', ''Command'', ''Piece'']"
| "classes_of (PieceObj (RoomPiece n d)) = [''RoomPiece'', ''Piece'']"
| "classes_of PlayerPieceObj = [''PlayerPiece'', ''Piece'']"
| "classes_of (VectorObj v) = [''Vector'']"
| "classes_of GameEngineObj = [''GameEngine'']"
| "classes_of NoneObj = [''NoneType'']"
| "classes_of (IntObj i) = [''int'']"
| "classes_of (StrObj s) = [''str'']"

definition isinstance :: "pyobj \<Rightarrow> string \<Rightarrow> bool" where
  "isinstance obj c = (c \<in> set (classes_of obj))"

text \<open>\<^verbatim>\<open>GameEngine.add_module\<close>\<close>

definition add_module :: "pyobj \<Rightarrow> world \<Rightarrow> outcome" where
  "add_module obj w =
     (if isinstance obj ''Module'' then
        (case obj of
           ModuleObj m \<Rightarrow> Inr (w\<lparr>modules := modules w @ [m]\<rparr>)
         | _ \<Rightarrow> Inl (TypeError ''Only instances of Module can be added as modules.'', w))
      else Inl (TypeError ''Only instances of Module can be added as modules.'', w))"

text \<open>\<^verbatim>\<open>InputMapModule.add_command\<close>, on the registry of the module.\<close>

definition add_command :: "pyobj \<Rightarrow> registry \<Rightarrow> exn \<times> registry + registry" where
  "add_command obj commands =
     (if isinstance obj ''Command'' then
        (case obj of
           CommandObj c \<Rightarrow> Inr (dict_set (trigger c) c commands)
         | _ \<Rightarrow> Inl (TypeError ''Only instances of Command can be added as commands.'', commands))
      else Inl (TypeError ''Only instances of Command can be added as commands.'', commands))"

text \<open>
  \<^verbatim>\<open>main\<close>, given the standard input of the process: the engine, the two rooms, the
  2 by 2 grid with a room at (0, 0) and one at (1, 0), the input map with the quit
  command, and the run.
\<close>

definition main :: "event list \<Rightarrow> outcome option" where
  "main evs =
     (let engine = GameEngine_init evs;
          room1 = RoomPiece ''Lab 1'' ''A dark, spooky forest with tall trees.'';
          room2 = RoomPiece ''Lab 2'' ''A calm river flows here.'';
          map_module = MapGridModule_init 2 2
      in
      case add_room room1 (Some (Vector (Some 0) (Some 0))) map_module (stdout engine) of
        Inl (e, g, out) \<Rightarrow> Some (Inl (e, engine\<lparr>stdout := out\<rparr>))
      | Inr (g1, out1) \<Rightarrow>
      (case add_room room2 (Some (Vector (Some 1) (Some 0))) g1 out1 of
        Inl (e, g, out) \<Rightarrow> Some (Inl (e, engine\<lparr>stdout := out\<rparr>))
      | Inr (g2, out2) \<Rightarrow>
      (case add_module (ModuleObj (MapGridModule g2)) (engine\<lparr>stdout := out2\<rparr>) of
        Inl ew \<Rightarrow> Some (Inl ew)
      | Inr w1 \<Rightarrow>
      (case add_command (CommandObj QuitCommand) [] of
        Inl (e, commands) \<Rightarrow> Some (Inl (e, w1))
      | Inr commands \<Rightarrow>
      (case add_module (ModuleObj (InputMapModule commands)) w1 of
        Inl ew \<Rightarrow> Some (Inl ew)
      | Inr w2 \<Rightarrow> run w2)))))"

text \<open>
  The grids that \<^verbatim>\<open>MapGridModule.__init__\<close> builds and the methods keep: as many rows
  as \<open>size_y\<close>, each as long as \<open>size_x\<close>.
\<close>

definition well_formed :: "grid \<Rightarrow> bool" where
  "well_formed g =
     (length (map_grid g) = nat (size_y g)
      \<and> list_all (\<lambda>row. length row = nat (size_x g)) (map_grid g))"

section \<open>Reading and writing cells of a well-formed grid\<close>

lemma py_index_nat: "i < n \<Longrightarrow> py_index n (int i) = Some i"
  by (simp add: py_index_def)

lemma grid_get_nat:
  "y < length rows \<Longrightarrow> x < length (rows ! y) \<Longrightarrow>
   grid_get rows (int y) (int x) = Inr (rows ! y ! x)"
  by (simp add: grid_get_def py_index_nat)

lemma grid_set_nat:
  "y < length rows \<Longrightarrow> x < length (rows ! y) \<Longrightarrow>
   grid_set rows (int y) (int x) v = Inr (rows[y := (rows ! y)[x := v]])"
  by (simp add: grid_set_def py_index_nat)

lemma well_formed_length: "well_formed g \<Longrightarrow> length (map_grid g) = nat (size_y g)"
  by (simp add: well_formed_def)

lemma well_formed_row:
  "well_formed g \<Longrightarrow> y < nat (size_y g) \<Longrightarrow> length (map_grid g ! y) = nat (size_x g)"
  by (simp add: well_formed_def list_all_length)

lemma well_formed_init: "well_formed (MapGridModule_init sx sy)"
  by (simp add: well_formed_def MapGridModule_init_def list_all_length)

lemma well_formed_update:
  "well_formed g \<Longrightarrow> well_formed (g\<lparr>map_grid := (map_grid g)[j := (map_grid g ! j)[i := v]]\<rparr>)"
proof -
  assume wf: "well_formed g"
  have "length ((map_grid g)[j := (map_grid g ! j)[i := v]] ! n) = nat (size_x g)"
    if "n < nat (size_y g)" for n
  proof (cases "n = j")
    case True
    with wf that show ?thesis by (simp add: well_formed_length well_formed_row)
  next
    case False
    with wf that show ?thesis by (simp add: well_formed_row)
  qed
  with wf show ?thesis by (simp add: well_formed_def list_all_length)
qed

section \<open>The scan for the first empty cell\<close>

text \<open>
  Both loops, on indices inside the grid, are a search for the first index that
  satisfies a test: the first empty column of a row, and the first row that has one.
\<close>

lemma scan_x_find:
  "y < length rows \<Longrightarrow> \<forall>x \<in> set xs. x < length (rows ! y) \<Longrightarrow>
   scan_x xs y e rows =
     (case find (\<lambda>x. rows ! y ! x = None) xs of
        None \<Rightarrow> Inr None
      | Some x \<Rightarrow> Inr (Some (rows[y := (rows ! y)[x := Some e]])))"
  by (induction xs) (auto simp: grid_get_nat grid_set_nat split: option.splits)

lemma scan_y_find:
  "\<forall>y \<in> set ys. y < length rows \<and> (\<forall>x \<in> set xs. x < length (rows ! y)) \<Longrightarrow>
   scan_y ys xs e rows =
     (case find (\<lambda>y. find (\<lambda>x. rows ! y ! x = None) xs \<noteq> None) ys of
        None \<Rightarrow> Inr None
      | Some y \<Rightarrow>
          Inr (Some (rows[y := (rows ! y)[the (find (\<lambda>x. rows ! y ! x = None) xs) := Some e]])))"
  by (induction ys) (auto simp: scan_x_find split: option.splits)

lemma find_upt_None: "find P [0 ..< n] = None \<longleftrightarrow> (\<forall>i < n. \<not> P i)"
  by (auto simp: find_None_iff)

lemma find_upt_Some: "find P [0 ..< n] = Some i \<longleftrightarrow> (i < n \<and> P i \<and> (\<forall>j < i. \<not> P j))"
  by (auto simp: find_Some_iff)

lemma scan_well_formed:
  assumes "well_formed g"
  shows "scan_y [0 ..< nat (size_y g)] [0 ..< nat (size_x g)] e (map_grid g) =
     (case find (\<lambda>y. find (\<lambda>x. map_grid g ! y ! x = None) [0 ..< nat (size_x g)] \<noteq> None)
             [0 ..< nat (size_y g)] of
        None \<Rightarrow> Inr None
      | Some y \<Rightarrow>
          Inr (Some ((map_grid g)[y := (map_grid g ! y)
                 [the (find (\<lambda>x. map_grid g ! y ! x = None) [0 ..< nat (size_x g)]) := Some e]])))"
proof (rule scan_y_find)
  from assms
  show "\<forall>y\<in>set [0..<nat (size_y g)]. y < length (map_grid g)
          \<and> (\<forall>x\<in>set [0..<nat (size_x g)]. x < length (map_grid g ! y))"
    by (simp add: well_formed_row well_formed_length)
qed

lemma first_empty_full:
  assumes wf: "well_formed g"
    and full: "\<forall>y x. y < nat (size_y g) \<and> x < nat (size_x g) \<longrightarrow> map_grid g ! y ! x \<noteq> None"
  shows "add_to_first_empty_space e g = Inr (False, g)"
proof -
  have "find (\<lambda>y. find (\<lambda>x. map_grid g ! y ! x = None) [0 ..< nat (size_x g)] \<noteq> None)
          [0 ..< nat (size_y g)] = None"
    using full by (auto simp: find_upt_None)
  then show ?thesis
    by (simp add: add_to_first_empty_space_def scan_well_formed [OF wf])
qed

lemma first_empty_place:
  assumes wf: "well_formed g"
    and some: "\<not> (\<forall>y x. y < nat (size_y g) \<and> x < nat (size_x g) \<longrightarrow> map_grid g ! y ! x \<noteq> None)"
  shows "\<exists>y x. y < nat (size_y g) \<and> x < nat (size_x g) \<and> map_grid g ! y ! x = None
      \<and> (\<forall>y' x'. y' < nat (size_y g) \<and> x' < nat (size_x g) \<and> (y' < y \<or> (y' = y \<and> x' < x))
            \<longrightarrow> map_grid g ! y' ! x' \<noteq> None)
      \<and> add_to_first_empty_space e g
          = Inr (True, g\<lparr>map_grid := (map_grid g)[y := (map_grid g ! y)[x := Some e]]\<rparr>)"
proof -
  let ?N = "nat (size_x g)" and ?M = "nat (size_y g)"
  let ?rowfind = "\<lambda>y. find (\<lambda>x. map_grid g ! y ! x = None) [0 ..< ?N]"
  have "find (\<lambda>y. ?rowfind y \<noteq> None) [0 ..< ?M] \<noteq> None"
    using some by (auto simp: find_upt_None)
  then obtain y where y: "find (\<lambda>y. ?rowfind y \<noteq> None) [0 ..< ?M] = Some y" by auto
  then have "y < ?M \<and> ?rowfind y \<noteq> None \<and> (\<forall>j < y. \<not> ?rowfind j \<noteq> None)"
    by (rule iffD1 [OF find_upt_Some])
  then have yM: "y < ?M" and yrow: "?rowfind y \<noteq> None"
    and ybefore: "\<forall>j < y. ?rowfind j = None"
    by blast+
  from yrow obtain x where x: "?rowfind y = Some x" by auto
  then have "x < ?N \<and> map_grid g ! y ! x = None \<and> (\<forall>i < x. \<not> map_grid g ! y ! i = None)"
    by (rule iffD1 [OF find_upt_Some])
  then have xN: "x < ?N" and empty: "map_grid g ! y ! x = None"
    and xbefore: "\<forall>i < x. map_grid g ! y ! i \<noteq> None"
    by blast+
  have rows_before: "\<forall>j < y. \<forall>i < ?N. map_grid g ! j ! i \<noteq> None"
    using ybefore by (simp only: find_upt_None)
  have before: "\<forall>y' x'. y' < ?M \<and> x' < ?N \<and> (y' < y \<or> (y' = y \<and> x' < x))
            \<longrightarrow> map_grid g ! y' ! x' \<noteq> None"
    using rows_before xbefore by blast
  have "add_to_first_empty_space e g
          = Inr (True, g\<lparr>map_grid := (map_grid g)[y := (map_grid g ! y)[x := Some e]]\<rparr>)"
    unfolding add_to_first_empty_space_def scan_well_formed [OF wf] y by (simp add: x)
  with yM xN empty before show ?thesis by blast
qed

lemma add_to_first_empty_space_well_formed:
  assumes "well_formed g" and "add_to_first_empty_space e g = Inr (b, g')"
  shows "well_formed g'"
proof (cases "\<forall>y x. y < nat (size_y g) \<and> x < nat (size_x g) \<longrightarrow> map_grid g ! y ! x \<noteq> None")
  case True
  with assms first_empty_full [of g e] show ?thesis by simp
next
  case False
  from first_empty_place [OF assms(1) False, of e] assms show ?thesis
    by (auto simp: well_formed_update)
qed

text \<open>
  C3. On a grid of \<open>size_x\<close> columns and \<open>size_y\<close> rows, \<^verbatim>\<open>add_to_first_empty_space\<close>
  never raises. When every cell is occupied it returns false and the grid is as before.
  Otherwise it returns true and the grid differs in one cell \<open>(x, y)\<close>, which was empty
  and now holds the element, and every cell before it in row-major order (an earlier
  row, or the same row and an earlier column) is occupied. So it returns false exactly
  when the grid is full. Starting from the empty 2 by 2 grid, four calls of \<^verbatim>\<open>add_room\<close>
  without a location fill (0, 0), then (1, 0), then (0, 1), then (1, 1), written
  \<open>(x, y)\<close>: row 0 from left to right, then row 1.
\<close>

theorem add_to_first_empty_space_row_major:
  assumes "well_formed g"
  shows "((\<forall>y x. y < nat (size_y g) \<and> x < nat (size_x g) \<longrightarrow> map_grid g ! y ! x \<noteq> None)
            \<longrightarrow> add_to_first_empty_space e g = Inr (False, g))
       \<and> (\<not> (\<forall>y x. y < nat (size_y g) \<and> x < nat (size_x g) \<longrightarrow> map_grid g ! y ! x \<noteq> None)
            \<longrightarrow> (\<exists>y x. y < nat (size_y g) \<and> x < nat (size_x g) \<and> map_grid g ! y ! x = None
                  \<and> (\<forall>y' x'. y' < nat (size_y g) \<and> x' < nat (size_x g)
                         \<and> (y' < y \<or> (y' = y \<and> x' < x))
                       \<longrightarrow> map_grid g ! y' ! x' \<noteq> None)
                  \<and> add_to_first_empty_space e g
                      = Inr (True, g\<lparr>map_grid := (map_grid g)[y := (map_grid g ! y)[x := Some e]]\<rparr>)))
       \<and> ((\<exists>g'. add_to_first_empty_space e g = Inr (False, g'))
            \<longleftrightarrow> (\<forall>y x. y < nat (size_y g) \<and> x < nat (size_x g) \<longrightarrow> map_grid g ! y ! x \<noteq> None))
       \<and> add_room r1 None (MapGridModule_init 2 2) out
           = Inr (\<lparr>size_x = 2, size_y = 2, map_grid = [[Some r1, None], [None, None]]\<rparr>, out)
       \<and> add_room r2 None \<lparr>size_x = 2, size_y = 2, map_grid = [[Some r1, None], [None, None]]\<rparr> out
           = Inr (\<lparr>size_x = 2, size_y = 2, map_grid = [[Some r1, Some r2], [None, None]]\<rparr>, out)
       \<and> add_room r3 None \<lparr>size_x = 2, size_y = 2, map_grid = [[Some r1, Some r2], [None, None]]\<rparr> out
           = Inr (\<lparr>size_x = 2, size_y = 2, map_grid = [[Some r1, Some r2], [Some r3, None]]\<rparr>, out)
       \<and> add_room r4 None \<lparr>size_x = 2, size_y = 2, map_grid = [[Some r1, Some r2], [Some r3, None]]\<rparr> out
           = Inr (\<lparr>size_x = 2, size_y = 2, map_grid = [[Some r1, Some r2], [Some r3, Some r4]]\<rparr>, out)"
proof -
  let ?full = "\<forall>y x. y < nat (size_y g) \<and> x < nat (size_x g) \<longrightarrow> map_grid g ! y ! x \<noteq> None"
  have full: "?full \<longrightarrow> add_to_first_empty_space e g = Inr (False, g)"
    using first_empty_full [OF assms] by blast
  have place: "\<not> ?full
            \<longrightarrow> (\<exists>y x. y < nat (size_y g) \<and> x < nat (size_x g) \<and> map_grid g ! y ! x = None
                  \<and> (\<forall>y' x'. y' < nat (size_y g) \<and> x' < nat (size_x g)
                         \<and> (y' < y \<or> (y' = y \<and> x' < x))
                       \<longrightarrow> map_grid g ! y' ! x' \<noteq> None)
                  \<and> add_to_first_empty_space e g
                      = Inr (True, g\<lparr>map_grid := (map_grid g)[y := (map_grid g ! y)[x := Some e]]\<rparr>))"
    using first_empty_place [OF assms] by blast
  have iff: "(\<exists>g'. add_to_first_empty_space e g = Inr (False, g')) \<longleftrightarrow> ?full"
  proof
    assume "\<exists>g'. add_to_first_empty_space e g = Inr (False, g')"
    then show ?full using place by auto
  next
    assume ?full
    then show "\<exists>g'. add_to_first_empty_space e g = Inr (False, g')" using full by blast
  qed
  have fill:
    "add_room r1 None (MapGridModule_init 2 2) out
       = Inr (\<lparr>size_x = 2, size_y = 2, map_grid = [[Some r1, None], [None, None]]\<rparr>, out)"
    "add_room r2 None \<lparr>size_x = 2, size_y = 2, map_grid = [[Some r1, None], [None, None]]\<rparr> out
       = Inr (\<lparr>size_x = 2, size_y = 2, map_grid = [[Some r1, Some r2], [None, None]]\<rparr>, out)"
    "add_room r3 None \<lparr>size_x = 2, size_y = 2, map_grid = [[Some r1, Some r2], [None, None]]\<rparr> out
       = Inr (\<lparr>size_x = 2, size_y = 2, map_grid = [[Some r1, Some r2], [Some r3, None]]\<rparr>, out)"
    "add_room r4 None \<lparr>size_x = 2, size_y = 2, map_grid = [[Some r1, Some r2], [Some r3, None]]\<rparr> out
       = Inr (\<lparr>size_x = 2, size_y = 2, map_grid = [[Some r1, Some r2], [Some r3, Some r4]]\<rparr>, out)"
    by (simp_all add: add_room_def add_to_first_empty_space_def MapGridModule_init_def
        grid_get_def grid_set_def py_index_def upt_conv_Cons eval_nat_numeral)
  from full place iff fill show ?thesis by blast
qed

theorem add_to_first_empty_space_row_major_witness:
  "well_formed \<lparr>size_x = 2, size_y = 1, map_grid = [[Some (RoomPiece ''A'' ''a''), None]]\<rparr>
   \<and> add_to_first_empty_space (RoomPiece ''B'' ''b'')
        \<lparr>size_x = 2, size_y = 1, map_grid = [[Some (RoomPiece ''A'' ''a''), None]]\<rparr>
      = Inr (True, \<lparr>size_x = 2, size_y = 1,
                    map_grid = [[Some (RoomPiece ''A'' ''a''), Some (RoomPiece ''B'' ''b'')]]\<rparr>)
   \<and> well_formed \<lparr>size_x = 1, size_y = 1, map_grid = [[Some (RoomPiece ''A'' ''a'')]]\<rparr>
   \<and> add_to_first_empty_space (RoomPiece ''B'' ''b'')
        \<lparr>size_x = 1, size_y = 1, map_grid = [[Some (RoomPiece ''A'' ''a'')]]\<rparr>
      = Inr (False, \<lparr>size_x = 1, size_y = 1, map_grid = [[Some (RoomPiece ''A'' ''a'')]]\<rparr>)"
proof -
  let ?part = "\<lparr>size_x = 2, size_y = 1, map_grid = [[Some (RoomPiece ''A'' ''a''), None]]\<rparr>"
  let ?full = "\<lparr>size_x = 1, size_y = 1, map_grid = [[Some (RoomPiece ''A'' ''a'')]]\<rparr>"
  have wf_part: "well_formed ?part" by (simp add: well_formed_def)
  have wf_full: "well_formed ?full" by (simp add: well_formed_def)
  have occupied: "\<forall>y x. y < nat (size_y ?full) \<and> x < nat (size_x ?full)
                    \<longrightarrow> map_grid ?full ! y ! x \<noteq> None"
    by simp
  have not_occupied: "\<not> (\<forall>y x. y < nat (size_y ?part) \<and> x < nat (size_x ?part)
                    \<longrightarrow> map_grid ?part ! y ! x \<noteq> None)"
    by (simp add: exI [of _ 0] exI [of _ 1])
  from add_to_first_empty_space_row_major [OF wf_full, of "RoomPiece ''B'' ''b''"] occupied
  have full: "add_to_first_empty_space (RoomPiece ''B'' ''b'') ?full = Inr (False, ?full)"
    by blast
  from add_to_first_empty_space_row_major [OF wf_part, of "RoomPiece ''B'' ''b''"] not_occupied
  obtain y x where yx: "y < nat (size_y ?part)" "x < nat (size_x ?part)"
      "map_grid ?part ! y ! x = None"
      "add_to_first_empty_space (RoomPiece ''B'' ''b'') ?part
         = Inr (True, ?part\<lparr>map_grid := (map_grid ?part)[y := (map_grid ?part ! y)[x := Some (RoomPiece ''B'' ''b'')]]\<rparr>)"
    by blast
  from yx(1) have y0: "y = 0" by simp
  from yx(2,3) y0 have x1: "x = 1" by (cases x) auto
  from yx(4) y0 x1
  have part: "add_to_first_empty_space (RoomPiece ''B'' ''b'') ?part
      = Inr (True, \<lparr>size_x = 2, size_y = 1,
                    map_grid = [[Some (RoomPiece ''A'' ''a''), Some (RoomPiece ''B'' ''b'')]]\<rparr>)"
    by simp
  from wf_part wf_full part full show ?thesis by blast
qed

section \<open>Placing and removing rooms at a location\<close>

lemma grid_get_in:
  assumes "well_formed g" "0 \<le> x" "x < size_x g" "0 \<le> y" "y < size_y g"
  shows "grid_get (map_grid g) y x = Inr (map_grid g ! nat y ! nat x)"
proof -
  from assms have "nat y < length (map_grid g)" "nat x < length (map_grid g ! nat y)"
    by (simp_all add: well_formed_length well_formed_row)
  from grid_get_nat [OF this] assms show ?thesis by simp
qed

lemma grid_set_in:
  assumes "well_formed g" "0 \<le> x" "x < size_x g" "0 \<le> y" "y < size_y g"
  shows "grid_set (map_grid g) y x v
           = Inr ((map_grid g)[nat y := (map_grid g ! nat y)[nat x := v]])"
proof -
  from assms have "nat y < length (map_grid g)" "nat x < length (map_grid g ! nat y)"
    by (simp_all add: well_formed_length well_formed_row)
  from grid_set_nat [OF this] assms show ?thesis by simp
qed

text \<open>
  C7. Blocked changes of the grid raise nothing and change no cell. \<^verbatim>\<open>add_room\<close> at a
  valid location inside the grid whose cell is occupied prints the "occupied" message
  and returns the grid as it was. \<^verbatim>\<open>remove_room\<close> at a valid location inside the grid
  whose cell is empty, and \<^verbatim>\<open>remove_room\<close> with no location or with a location that is
  not valid, return the grid and the output as they were.
\<close>

theorem blocked_grid_mutations_are_noops:
  "(well_formed g \<and> 0 \<le> x \<and> x < size_x g \<and> 0 \<le> y \<and> y < size_y g
      \<and> map_grid g ! nat y ! nat x \<noteq> None
    \<longrightarrow> add_room room_piece (Some (Vector (Some x) (Some y))) g out
          = Inr (g, print (''Location ('' @ str_int x @ '', '' @ str_int y
                           @ '') is already occupied.'') out))
   \<and> (well_formed g \<and> 0 \<le> x \<and> x < size_x g \<and> 0 \<le> y \<and> y < size_y g
      \<and> map_grid g ! nat y ! nat x = None
    \<longrightarrow> remove_room (Some (Vector (Some x) (Some y))) g out = Inr (g, out))
   \<and> (location = None \<or> \<not> is_valid (the location)
    \<longrightarrow> remove_room location g out = Inr (g, out))"
proof (intro conjI impI)
  assume h: "well_formed g \<and> 0 \<le> x \<and> x < size_x g \<and> 0 \<le> y \<and> y < size_y g
      \<and> map_grid g ! nat y ! nat x \<noteq> None"
  then have "grid_get (map_grid g) y x = Inr (map_grid g ! nat y ! nat x)"
    by (simp add: grid_get_in)
  with h show "add_room room_piece (Some (Vector (Some x) (Some y))) g out
          = Inr (g, print (''Location ('' @ str_int x @ '', '' @ str_int y
                           @ '') is already occupied.'') out)"
    by (auto simp: add_room_def is_valid_def)
next
  assume h: "well_formed g \<and> 0 \<le> x \<and> x < size_x g \<and> 0 \<le> y \<and> y < size_y g
      \<and> map_grid g ! nat y ! nat x = None"
  then have "grid_get (map_grid g) y x = Inr (map_grid g ! nat y ! nat x)"
    by (simp add: grid_get_in)
  with h show "remove_room (Some (Vector (Some x) (Some y))) g out = Inr (g, out)"
    by (simp add: remove_room_def is_valid_def)
next
  assume "location = None \<or> \<not> is_valid (the location)"
  then show "remove_room location g out = Inr (g, out)"
    by (auto simp: remove_room_def)
qed

theorem blocked_grid_mutations_are_noops_witness:
  "well_formed \<lparr>size_x = 2, size_y = 1, map_grid = [[Some (RoomPiece ''A'' ''a''), None]]\<rparr>
   \<and> add_room (RoomPiece ''B'' ''b'') (Some (Vector (Some 0) (Some 0)))
        \<lparr>size_x = 2, size_y = 1, map_grid = [[Some (RoomPiece ''A'' ''a''), None]]\<rparr> ''''
      = Inr (\<lparr>size_x = 2, size_y = 1, map_grid = [[Some (RoomPiece ''A'' ''a''), None]]\<rparr>,
             print ''Location (0, 0) is already occupied.'' '''')
   \<and> remove_room (Some (Vector (Some 1) (Some 0)))
        \<lparr>size_x = 2, size_y = 1, map_grid = [[Some (RoomPiece ''A'' ''a''), None]]\<rparr> ''''
      = Inr (\<lparr>size_x = 2, size_y = 1, map_grid = [[Some (RoomPiece ''A'' ''a''), None]]\<rparr>, '''')
   \<and> remove_room (Some (Vector None (Some 0)))
        \<lparr>size_x = 2, size_y = 1, map_grid = [[Some (RoomPiece ''A'' ''a''), None]]\<rparr> ''''
      = Inr (\<lparr>size_x = 2, size_y = 1, map_grid = [[Some (RoomPiece ''A'' ''a''), None]]\<rparr>, '''')"
proof -
  let ?g = "\<lparr>size_x = 2, size_y = 1, map_grid = [[Some (RoomPiece ''A'' ''a''), None]]\<rparr>"
  have wf: "well_formed ?g" by (simp add: well_formed_def)
  have s0: "str_int 0 = ''0''" by (simp add: str_int_def str_nat.simps)
  from wf blocked_grid_mutations_are_noops
         [of ?g 0 0 "RoomPiece ''B'' ''b''" "''''" "Some (Vector None (Some 0))"]
  have a: "add_room (RoomPiece ''B'' ''b'') (Some (Vector (Some 0) (Some 0))) ?g ''''
      = Inr (?g, print ''Location (0, 0) is already occupied.'' '''')"
    and c: "remove_room (Some (Vector None (Some 0))) ?g '''' = Inr (?g, '''')"
    by (simp_all add: s0 is_valid_def)
  from wf blocked_grid_mutations_are_noops
         [of ?g 1 0 "RoomPiece ''B'' ''b''" "''''" "Some (Vector None (Some 0))"]
  have b: "remove_room (Some (Vector (Some 1) (Some 0))) ?g '''' = Inr (?g, '''')"
    by simp
  from wf a b c show ?thesis by blast
qed

text \<open>
  C8. Round trip. On a grid whose cell at a valid location \<open>(x, y)\<close> inside the grid is
  empty, \<^verbatim>\<open>add_room\<close> there succeeds and the cell holds the room; \<^verbatim>\<open>remove_room\<close> there
  then succeeds, the cell is empty again, and the grid is the grid before the add. So
  \<^verbatim>\<open>execute\<close> after the remove does, from any output, what it does before the add.
\<close>

theorem add_then_remove_restores_grid:
  assumes wf: "well_formed g"
    and x: "0 \<le> x" "x < size_x g" and y: "0 \<le> y" "y < size_y g"
    and empty: "map_grid g ! nat y ! nat x = None"
  shows "\<exists>g1 out1 g2 out2.
           add_room room_piece (Some (Vector (Some x) (Some y))) g out = Inr (g1, out1)
         \<and> map_grid g1 ! nat y ! nat x = Some room_piece
         \<and> remove_room (Some (Vector (Some x) (Some y))) g1 out1 = Inr (g2, out2)
         \<and> map_grid g2 ! nat y ! nat x = None
         \<and> g2 = g
         \<and> MapGridModule_execute g2 out' = MapGridModule_execute g out'"
proof -
  let ?loc = "Some (Vector (Some x) (Some y))"
  let ?rows1 = "(map_grid g)[nat y := (map_grid g ! nat y)[nat x := Some room_piece]]"
  let ?g1 = "g\<lparr>map_grid := ?rows1\<rparr>"
  let ?out1 = "print (''Room '' @ quoted (attributes_name room_piece) @ '' added at (''
                      @ str_int x @ '', '' @ str_int y @ '').'') out"
  let ?out2 = "print (''Room '' @ quoted (attributes_name room_piece) @ '' removed.'') ?out1"
  have ylen: "nat y < length (map_grid g)" and xlen: "nat x < length (map_grid g ! nat y)"
    using wf x y by (simp_all add: well_formed_length well_formed_row)
  have added: "add_room room_piece ?loc g out = Inr (?g1, ?out1)"
    using wf x y empty by (simp add: add_room_def is_valid_def grid_get_in grid_set_in)
  have wf1: "well_formed ?g1" using wf by (rule well_formed_update)
  have cell1: "map_grid ?g1 ! nat y ! nat x = Some room_piece"
    using ylen xlen by simp
  have restored: "(map_grid ?g1)[nat y := (map_grid ?g1 ! nat y)[nat x := None]] = map_grid g"
  proof -
    have "(map_grid g ! nat y)[nat x := None] = map_grid g ! nat y"
      using empty list_update_id [of "map_grid g ! nat y" "nat x"] by simp
    with ylen show ?thesis by simp
  qed
  have get1: "grid_get ?rows1 y x = Inr (Some room_piece)"
    using grid_get_in [OF wf1, of x y] x y cell1 by simp
  have set1: "grid_set ?rows1 y x None = Inr (map_grid g)"
    using grid_set_in [OF wf1, of x y None] x y restored by simp
  have removed: "remove_room ?loc ?g1 ?out1 = Inr (g, ?out2)"
    by (simp add: remove_room_def is_valid_def get1 set1)
  from added cell1 removed empty show ?thesis by blast
qed

theorem add_then_remove_restores_grid_witness:
  "well_formed \<lparr>size_x = 2, size_y = 1, map_grid = [[Some (RoomPiece ''A'' ''a''), None]]\<rparr>
   \<and> (\<exists>g1 out1 g2 out2.
         add_room (RoomPiece ''B'' ''b'') (Some (Vector (Some 1) (Some 0)))
           \<lparr>size_x = 2, size_y = 1, map_grid = [[Some (RoomPiece ''A'' ''a''), None]]\<rparr> ''''
           = Inr (g1, out1)
       \<and> map_grid g1 ! nat 0 ! nat 1 = Some (RoomPiece ''B'' ''b'')
       \<and> remove_room (Some (Vector (Some 1) (Some 0))) g1 out1 = Inr (g2, out2)
       \<and> map_grid g2 ! nat 0 ! nat 1 = None
       \<and> g2 = \<lparr>size_x = 2, size_y = 1, map_grid = [[Some (RoomPiece ''A'' ''a''), None]]\<rparr>
       \<and> MapGridModule_execute g2 ''''
           = MapGridModule_execute
               \<lparr>size_x = 2, size_y = 1, map_grid = [[Some (RoomPiece ''A'' ''a''), None]]\<rparr> '''')"
proof -
  let ?g = "\<lparr>size_x = 2, size_y = 1, map_grid = [[Some (RoomPiece ''A'' ''a''), None]]\<rparr>"
  have wf: "well_formed ?g" by (simp add: well_formed_def)
  have "(0::int) \<le> 1" "1 < size_x ?g" "(0::int) \<le> 0" "0 < size_y ?g"
    "map_grid ?g ! nat 0 ! nat 1 = None"
    by simp_all
  from add_then_remove_restores_grid [OF wf this, of "RoomPiece ''B'' ''b''" "''''" "''''"] wf
  show ?thesis by blast
qed

lemma py_index_less: "py_index n i = Some j \<Longrightarrow> j < n"
  by (auto simp: py_index_def split: if_splits)

lemma py_index_beyond: "n \<le> i \<Longrightarrow> py_index (nat n) i = None"
  by (auto simp: py_index_def)

lemma py_index_wrap:
  "- n \<le> i \<Longrightarrow> i < n \<Longrightarrow> py_index (nat n) i = Some (nat (if i < 0 then i + n else i))"
  by (auto simp: py_index_def)

lemma grid_get_beyond:
  assumes wf: "well_formed g" and out: "size_x g \<le> x \<or> size_y g \<le> y"
  shows "grid_get (map_grid g) y x = Inl IndexError"
proof (cases "py_index (length (map_grid g)) y")
  case None
  then show ?thesis by (simp add: grid_get_def)
next
  case (Some j)
  then have "j < nat (size_y g)"
    using py_index_less [of "length (map_grid g)" y j] wf by (simp add: well_formed_length)
  with wf have len: "length (map_grid g ! j) = nat (size_x g)" by (rule well_formed_row)
  have "\<not> size_y g \<le> y"
    using Some py_index_beyond [of "size_y g" y] wf by (auto simp: well_formed_length)
  with out have "size_x g \<le> x" by simp
  then have "py_index (nat (size_x g)) x = None" by (rule py_index_beyond)
  with Some len show ?thesis by (simp add: grid_get_def)
qed

lemma grid_get_wrap:
  assumes wf: "well_formed g"
    and x: "- size_x g \<le> x" "x < size_x g" and y: "- size_y g \<le> y" "y < size_y g"
  shows "grid_get (map_grid g) y x
           = Inr (map_grid g ! nat (if y < 0 then y + size_y g else y)
                             ! nat (if x < 0 then x + size_x g else x))"
proof -
  let ?j = "nat (if y < 0 then y + size_y g else y)"
  have j: "py_index (length (map_grid g)) y = Some ?j"
    using py_index_wrap [OF y] wf by (simp add: well_formed_length)
  have "?j < nat (size_y g)" using y by auto
  with wf have "length (map_grid g ! ?j) = nat (size_x g)" by (rule well_formed_row)
  then have "py_index (length (map_grid g ! ?j)) x = Some (nat (if x < 0 then x + size_x g else x))"
    using py_index_wrap [OF x] by simp
  with j show ?thesis by (simp add: grid_get_def)
qed

lemma grid_set_wrap:
  assumes wf: "well_formed g"
    and x: "- size_x g \<le> x" "x < size_x g" and y: "- size_y g \<le> y" "y < size_y g"
  shows "grid_set (map_grid g) y x v
           = Inr ((map_grid g)[nat (if y < 0 then y + size_y g else y) :=
                    (map_grid g ! nat (if y < 0 then y + size_y g else y))
                      [nat (if x < 0 then x + size_x g else x) := v]])"
proof -
  let ?j = "nat (if y < 0 then y + size_y g else y)"
  have j: "py_index (length (map_grid g)) y = Some ?j"
    using py_index_wrap [OF y] wf by (simp add: well_formed_length)
  have "?j < nat (size_y g)" using y by auto
  with wf have "length (map_grid g ! ?j) = nat (size_x g)" by (rule well_formed_row)
  then have "py_index (length (map_grid g ! ?j)) x = Some (nat (if x < 0 then x + size_x g else x))"
    using py_index_wrap [OF x] by simp
  with j show ?thesis by (simp add: grid_set_def)
qed

lemma add_room_at:
  assumes "grid_get (map_grid g) y x = Inr c"
    and "grid_set (map_grid g) y x (Some room_piece) = Inr rows'"
  shows "\<exists>out1. add_room room_piece (Some (Vector (Some x) (Some y))) g out
           = Inr (if c = None then g\<lparr>map_grid := rows'\<rparr> else g, out1)"
  using assms by (cases c) (simp_all add: add_room_def is_valid_def)

lemma remove_room_at:
  assumes "grid_get (map_grid g) y x = Inr c"
    and "grid_set (map_grid g) y x None = Inr rows'"
  shows "\<exists>out1. remove_room (Some (Vector (Some x) (Some y))) g out
           = Inr (if c = None then g else g\<lparr>map_grid := rows'\<rparr>, out1)"
  using assms by (cases c) (simp_all add: remove_room_def is_valid_def)

text \<open>
  C10. A \<^verbatim>\<open>Vector\<close> with two coordinates is valid whatever the coordinates are. On a
  grid of \<open>size_x\<close> columns and \<open>size_y\<close> rows, \<^verbatim>\<open>add_room\<close> and \<^verbatim>\<open>remove_room\<close> at a
  valid location with \<open>x \<ge> size_x\<close> or \<open>y \<ge> size_y\<close> raise \<^verbatim>\<open>IndexError\<close>, which
  neither method catches. At a location with a negative coordinate, no smaller than
  \<open>- size_x\<close> or \<open>- size_y\<close>, neither raises: the cell addressed is the one counted
  from the opposite edge, \<open>x + size_x\<close> or \<open>y + size_y\<close>, and the grid that results is
  the one that the same call at that cell gives.
\<close>

theorem location_has_no_bounds_check:
  assumes wf: "well_formed g"
  shows "is_valid (Vector (Some x) (Some y))
    \<and> (size_x g \<le> x \<or> size_y g \<le> y
        \<longrightarrow> add_room room_piece (Some (Vector (Some x) (Some y))) g out = Inl (IndexError, g, out)
          \<and> remove_room (Some (Vector (Some x) (Some y))) g out = Inl (IndexError, g, out))
    \<and> (- size_x g \<le> x \<and> x < size_x g \<and> - size_y g \<le> y \<and> y < size_y g \<and> (x < 0 \<or> y < 0)
        \<longrightarrow> grid_get (map_grid g) y x
              = Inr (map_grid g ! nat (if y < 0 then y + size_y g else y)
                                ! nat (if x < 0 then x + size_x g else x))
          \<and> (\<exists>g' out1 out2.
                add_room room_piece (Some (Vector (Some x) (Some y))) g out = Inr (g', out1)
              \<and> add_room room_piece
                  (Some (Vector (Some (if x < 0 then x + size_x g else x))
                                (Some (if y < 0 then y + size_y g else y)))) g out
                  = Inr (g', out2))
          \<and> (\<exists>g' out1 out2.
                remove_room (Some (Vector (Some x) (Some y))) g out = Inr (g', out1)
              \<and> remove_room
                  (Some (Vector (Some (if x < 0 then x + size_x g else x))
                                (Some (if y < 0 then y + size_y g else y)))) g out
                  = Inr (g', out2)))"
proof (intro conjI impI)
  show "is_valid (Vector (Some x) (Some y))" by (simp add: is_valid_def)
next
  assume "size_x g \<le> x \<or> size_y g \<le> y"
  then have "grid_get (map_grid g) y x = Inl IndexError" by (rule grid_get_beyond [OF wf])
  then show "add_room room_piece (Some (Vector (Some x) (Some y))) g out = Inl (IndexError, g, out)"
    and "remove_room (Some (Vector (Some x) (Some y))) g out = Inl (IndexError, g, out)"
    by (simp_all add: add_room_def remove_room_def is_valid_def)
next
  assume h: "- size_x g \<le> x \<and> x < size_x g \<and> - size_y g \<le> y \<and> y < size_y g \<and> (x < 0 \<or> y < 0)"
  define X where "X = (if x < 0 then x + size_x g else x)"
  define Y where "Y = (if y < 0 then y + size_y g else y)"
  from h have x: "- size_x g \<le> x" "x < size_x g" and y: "- size_y g \<le> y" "y < size_y g"
    by simp_all
  from h have X: "0 \<le> X" "X < size_x g" and Y: "0 \<le> Y" "Y < size_y g"
    by (auto simp: X_def Y_def)
  have get: "grid_get (map_grid g) y x = Inr (map_grid g ! nat Y ! nat X)"
    using grid_get_wrap [OF wf x y] by (simp only: X_def Y_def)
  have get': "grid_get (map_grid g) Y X = Inr (map_grid g ! nat Y ! nat X)"
    by (rule grid_get_in [OF wf X Y])
  have set: "grid_set (map_grid g) y x v
               = Inr ((map_grid g)[nat Y := (map_grid g ! nat Y)[nat X := v]])" for v
    using grid_set_wrap [OF wf x y] by (simp only: X_def Y_def)
  have set': "grid_set (map_grid g) Y X v
               = Inr ((map_grid g)[nat Y := (map_grid g ! nat Y)[nat X := v]])" for v
    by (rule grid_set_in [OF wf X Y])
  from get show "grid_get (map_grid g) y x
              = Inr (map_grid g ! nat (if y < 0 then y + size_y g else y)
                                ! nat (if x < 0 then x + size_x g else x))"
    by (simp only: X_def Y_def)
  have "\<exists>g' out1 out2.
          add_room room_piece (Some (Vector (Some x) (Some y))) g out = Inr (g', out1)
        \<and> add_room room_piece (Some (Vector (Some X) (Some Y))) g out = Inr (g', out2)"
    using add_room_at [OF get set [of "Some room_piece"], where out = out]
      add_room_at [OF get' set' [of "Some room_piece"], where out = out]
    by blast
  then show "\<exists>g' out1 out2.
          add_room room_piece (Some (Vector (Some x) (Some y))) g out = Inr (g', out1)
        \<and> add_room room_piece
            (Some (Vector (Some (if x < 0 then x + size_x g else x))
                          (Some (if y < 0 then y + size_y g else y)))) g out
            = Inr (g', out2)"
    by (simp only: X_def Y_def)
  have "\<exists>g' out1 out2.
          remove_room (Some (Vector (Some x) (Some y))) g out = Inr (g', out1)
        \<and> remove_room (Some (Vector (Some X) (Some Y))) g out = Inr (g', out2)"
    using remove_room_at [OF get set [of None], where out = out]
      remove_room_at [OF get' set' [of None], where out = out]
    by blast
  then show "\<exists>g' out1 out2.
          remove_room (Some (Vector (Some x) (Some y))) g out = Inr (g', out1)
        \<and> remove_room
            (Some (Vector (Some (if x < 0 then x + size_x g else x))
                          (Some (if y < 0 then y + size_y g else y)))) g out
            = Inr (g', out2)"
    by (simp only: X_def Y_def)
qed

theorem location_has_no_bounds_check_witness:
  "well_formed \<lparr>size_x = 2, size_y = 1, map_grid = [[Some (RoomPiece ''A'' ''a''), None]]\<rparr>
   \<and> add_room (RoomPiece ''B'' ''b'') (Some (Vector (Some 2) (Some 0)))
        \<lparr>size_x = 2, size_y = 1, map_grid = [[Some (RoomPiece ''A'' ''a''), None]]\<rparr> ''''
      = Inl (IndexError,
             \<lparr>size_x = 2, size_y = 1, map_grid = [[Some (RoomPiece ''A'' ''a''), None]]\<rparr>, '''')
   \<and> remove_room (Some (Vector (Some 0) (Some 1)))
        \<lparr>size_x = 2, size_y = 1, map_grid = [[Some (RoomPiece ''A'' ''a''), None]]\<rparr> ''''
      = Inl (IndexError,
             \<lparr>size_x = 2, size_y = 1, map_grid = [[Some (RoomPiece ''A'' ''a''), None]]\<rparr>, '''')
   \<and> grid_get [[Some (RoomPiece ''A'' ''a''), None]] 0 (- 2) = Inr (Some (RoomPiece ''A'' ''a''))
   \<and> (\<exists>out1. remove_room (Some (Vector (Some (- 2)) (Some (- 1))))
        \<lparr>size_x = 2, size_y = 1, map_grid = [[Some (RoomPiece ''A'' ''a''), None]]\<rparr> ''''
      = Inr (\<lparr>size_x = 2, size_y = 1, map_grid = [[None, None]]\<rparr>, out1))"
proof -
  let ?g = "\<lparr>size_x = 2, size_y = 1, map_grid = [[Some (RoomPiece ''A'' ''a''), None]]\<rparr>"
  have wf: "well_formed ?g" by (simp add: well_formed_def)
  from location_has_no_bounds_check [OF wf, of 2 0 "RoomPiece ''B'' ''b''" "''''"]
  have a: "add_room (RoomPiece ''B'' ''b'') (Some (Vector (Some 2) (Some 0))) ?g ''''
             = Inl (IndexError, ?g, '''')"
    by simp
  from location_has_no_bounds_check [OF wf, of 0 1 "RoomPiece ''B'' ''b''" "''''"]
  have b: "remove_room (Some (Vector (Some 0) (Some 1))) ?g '''' = Inl (IndexError, ?g, '''')"
    by simp
  from location_has_no_bounds_check [OF wf, of "- 2" 0 "RoomPiece ''B'' ''b''" "''''"]
  have c: "grid_get [[Some (RoomPiece ''A'' ''a''), None]] 0 (- 2) = Inr (Some (RoomPiece ''A'' ''a''))"
    by simp
  from location_has_no_bounds_check [OF wf, of "- 2" "- 1" "RoomPiece ''B'' ''b''" "''''"]
  obtain g' out1 out2 where
    r: "remove_room (Some (Vector (Some (- 2)) (Some (- 1)))) ?g '''' = Inr (g', out1)"
       "remove_room (Some (Vector (Some 0) (Some 0))) ?g '''' = Inr (g', out2)"
    by auto
  have "remove_room (Some (Vector (Some 0) (Some 0))) ?g ''''
          = Inr (\<lparr>size_x = 2, size_y = 1, map_grid = [[None, None]]\<rparr>,
                 print (''Room '' @ quoted ''A'' @ '' removed.'') '''')"
    by (simp add: remove_room_def is_valid_def grid_get_def grid_set_def py_index_def)
  with r have d: "\<exists>out1. remove_room (Some (Vector (Some (- 2)) (Some (- 1)))) ?g ''''
      = Inr (\<lparr>size_x = 2, size_y = 1, map_grid = [[None, None]]\<rparr>, out1)"
    by simp
  from wf a b c d show ?thesis by blast
qed

text \<open>The methods keep a grid well formed.\<close>

lemma grid_set_form:
  "grid_set rows y x v = Inr rows' \<Longrightarrow> \<exists>j i. rows' = rows[j := (rows ! j)[i := v]]"
  by (auto simp: grid_set_def split: option.splits)

lemma add_room_well_formed:
  assumes wf: "well_formed g" and ok: "add_room room_piece location g out = Inr (g', out')"
  shows "well_formed g'"
proof (cases "location \<noteq> None \<and> is_valid (the location)")
  case True
  with ok wf show ?thesis
    by (auto simp: add_room_def Let_def well_formed_update
             split: sum.splits option.splits dest!: grid_set_form)
next
  case False
  with ok wf show ?thesis
    by (auto simp: add_room_def split: sum.splits bool.splits if_splits
             dest: add_to_first_empty_space_well_formed)
qed

lemma remove_room_well_formed:
  assumes wf: "well_formed g" and ok: "remove_room location g out = Inr (g', out')"
  shows "well_formed g'"
  using ok wf
  by (auto simp: remove_room_def Let_def well_formed_update
           split: sum.splits option.splits if_splits dest!: grid_set_form)

section \<open>The type checks of the two registries\<close>

lemma isinstance_Module: "isinstance obj ''Module'' \<longleftrightarrow> (\<exists>m. obj = ModuleObj m)"
proof (cases obj)
  case (ModuleObj m)
  then show ?thesis by (cases m) (simp_all add: isinstance_def)
next
  case (CommandObj c)
  then show ?thesis by (cases c) (simp add: isinstance_def)
next
  case (PieceObj p)
  then show ?thesis by (cases p) (simp add: isinstance_def)
qed (simp_all add: isinstance_def)

lemma isinstance_Command: "isinstance obj ''Command'' \<longleftrightarrow> (\<exists>c. obj = CommandObj c)"
proof (cases obj)
  case (ModuleObj m)
  then show ?thesis by (cases m) (simp_all add: isinstance_def)
next
  case (CommandObj c)
  then show ?thesis by (cases c) (simp add: isinstance_def)
next
  case (PieceObj p)
  then show ?thesis by (cases p) (simp add: isinstance_def)
qed (simp_all add: isinstance_def)

lemma add_module_Module: "add_module (ModuleObj m) w = Inr (w\<lparr>modules := modules w @ [m]\<rparr>)"
  by (simp add: add_module_def isinstance_Module)

lemma add_command_Command: "add_command (CommandObj c) commands = Inr (dict_set (trigger c) c commands)"
  by (simp add: add_command_def isinstance_Command)

text \<open>
  C9. \<^verbatim>\<open>add_module\<close> given a value that is not an instance of \<^verbatim>\<open>Module\<close> raises
  \<^verbatim>\<open>TypeError\<close> and the engine, with its module list, is as before. \<^verbatim>\<open>add_command\<close>
  given a value that is not an instance of \<^verbatim>\<open>Command\<close> raises \<^verbatim>\<open>TypeError\<close> and the
  registry is as before.
\<close>

theorem add_rejects_other_types:
  "(\<not> isinstance obj ''Module''
      \<longrightarrow> add_module obj w
            = Inl (TypeError ''Only instances of Module can be added as modules.'', w))
   \<and> (\<not> isinstance obj ''Command''
      \<longrightarrow> add_command obj commands
            = Inl (TypeError ''Only instances of Command can be added as commands.'', commands))"
  by (simp add: add_module_def add_command_def)

theorem add_rejects_other_types_witness:
  "\<not> isinstance (PieceObj (RoomPiece ''Lab 1'' ''d'')) ''Module''
   \<and> add_module (PieceObj (RoomPiece ''Lab 1'' ''d'')) (GameEngine_init [])
       = Inl (TypeError ''Only instances of Module can be added as modules.'', GameEngine_init [])
   \<and> \<not> isinstance (ModuleObj (InputMapModule [])) ''Command''
   \<and> add_command (ModuleObj (InputMapModule [])) [(''quit'', QuitCommand)]
       = Inl (TypeError ''Only instances of Command can be added as commands.'',
              [(''quit'', QuitCommand)])"
proof -
  have a: "\<not> isinstance (PieceObj (RoomPiece ''Lab 1'' ''d'')) ''Module''"
    and b: "\<not> isinstance (ModuleObj (InputMapModule [])) ''Command''"
    by (simp_all add: isinstance_def)
  from a b
    add_rejects_other_types [of "PieceObj (RoomPiece ''Lab 1'' ''d'')" "GameEngine_init []"]
    add_rejects_other_types [of "ModuleObj (InputMapModule [])" _ "[(''quit'', QuitCommand)]"]
  show ?thesis by blast
qed

text \<open>
  C1. The claim is that \<^verbatim>\<open>process_command\<close> on a registered trigger runs the effect
  of the command once. With the quit command registered by \<^verbatim>\<open>add_command\<close>, the call
  \<^verbatim>\<open>process_command('quit')\<close> finds the command and then raises \<^verbatim>\<open>AttributeError\<close> on
  \<^verbatim>\<open>command.execute\<close>: the effect \<^verbatim>\<open>QuitCommand.update\<close> does not run, nothing is printed
  and the engine keeps running.
\<close>

theorem process_command_registered_trigger_raises:
  "add_command (CommandObj QuitCommand) [] = Inr [(''quit'', QuitCommand)]
   \<and> process_command [(''quit'', QuitCommand)] ''quit'' w
       = Inl (AttributeError ''QuitCommand'' ''execute'', w)
   \<and> process_command [(''quit'', QuitCommand)] ''quit'' w \<noteq> Inr (QuitCommand_update w)"
  by (simp add: add_command_Command process_command_def)

text \<open>The two branches of \<^verbatim>\<open>process_command\<close>, for any registry.\<close>

lemma process_command_unregistered:
  "map_of commands user_input = None \<Longrightarrow>
   process_command commands user_input w
     = Inr (w\<lparr>stdout := print ''This command cannot be understood.'' (stdout w)\<rparr>)"
  by (simp add: process_command_def)

lemma process_command_registered:
  "map_of commands user_input = Some c \<Longrightarrow>
   process_command commands user_input w = Inl (AttributeError (command_class c) ''execute'', w)"
  by (simp add: process_command_def)

text \<open>
  C2. The claim is that \<^verbatim>\<open>MapGridModule.execute\<close> prints one line for each row, with
  the name of the room in each occupied cell, and never raises on a grid that holds
  rooms. On the 2 by 2 grid that holds the room "Lab 1" at (0, 0), placed by
  \<^verbatim>\<open>add_room\<close>, \<^verbatim>\<open>execute\<close> prints the heading and raises \<^verbatim>\<open>AttributeError\<close> on
  \<^verbatim>\<open>room.name\<close> before any row is printed.
\<close>

theorem execute_raises_on_a_room:
  "add_room (RoomPiece ''Lab 1'' ''A dark, spooky forest with tall trees.'')
     (Some (Vector (Some 0) (Some 0))) (MapGridModule_init 2 2) ''''
     = Inr (\<lparr>size_x = 2, size_y = 2,
             map_grid = [[Some (RoomPiece ''Lab 1'' ''A dark, spooky forest with tall trees.''), None],
                         [None, None]]\<rparr>,
            print (''Room '' @ quoted ''Lab 1'' @ '' added at (0, 0).'') '''')
   \<and> MapGridModule_execute
       \<lparr>size_x = 2, size_y = 2,
        map_grid = [[Some (RoomPiece ''Lab 1'' ''A dark, spooky forest with tall trees.''), None],
                    [None, None]]\<rparr> out
     = Inl (AttributeError ''RoomPiece'' ''name'', print ''Map Grid:'' out)"
  by (simp add: add_room_def is_valid_def MapGridModule_init_def grid_get_def grid_set_def
      py_index_def str_int_def str_nat.simps MapGridModule_execute_def room_name_attr_def
      eval_nat_numeral)

text \<open>On any grid, a room in any cell makes \<^verbatim>\<open>execute\<close> raise.\<close>

lemma cell_text_Inl: "cell_text c = Inl e \<Longrightarrow> e = AttributeError ''RoomPiece'' ''name''"
  by (cases c) (simp_all add: room_name_attr_def)

lemma row_texts_Inl: "row_texts row = Inl e \<Longrightarrow> e = AttributeError ''RoomPiece'' ''name''"
  by (induction row arbitrary: e) (auto split: sum.splits dest: cell_text_Inl)

lemma row_texts_room: "Some room \<in> set row \<Longrightarrow> row_texts row = Inl (AttributeError ''RoomPiece'' ''name'')"
  by (induction row) (auto simp: room_name_attr_def split: sum.splits dest: cell_text_Inl)

lemma print_rows_room:
  "Some room \<in> set row \<Longrightarrow> row \<in> set rows \<Longrightarrow>
   \<exists>out'. print_rows rows out = Inl (AttributeError ''RoomPiece'' ''name'', out')"
proof (induction rows arbitrary: out)
  case Nil
  then show ?case by simp
next
  case (Cons r rows)
  show ?case
  proof (cases "row_texts r")
    case (Inl e)
    then show ?thesis using row_texts_Inl [OF Inl] by simp
  next
    case (Inr ts)
    with Cons.prems row_texts_room have "row \<in> set rows" by fastforce
    with Cons.IH [OF Cons.prems(1)] Inr show ?thesis by simp
  qed
qed

lemma MapGridModule_execute_room:
  "Some room \<in> set row \<Longrightarrow> row \<in> set (map_grid g) \<Longrightarrow>
   \<exists>out'. MapGridModule_execute g out = Inl (AttributeError ''RoomPiece'' ''name'', out')"
  by (simp add: MapGridModule_execute_def print_rows_room)


section \<open>The input module and the run loop\<close>

lemma InputMapModule_execute_line:
  "stdin w = Line s # evs \<Longrightarrow>
   InputMapModule_execute commands w
     = Inl (AttributeError ''InputMapModule'' ''handle_input'',
            w\<lparr>stdout := stdout w @ ''>: '', stdin := evs\<rparr>)"
  by (simp add: InputMapModule_execute_def input_def)

lemma InputMapModule_execute_eof:
  "stdin w = [] \<Longrightarrow>
   InputMapModule_execute commands w = Inl (EOFError, w\<lparr>stdout := stdout w @ ''>: ''\<rparr>)"
  by (simp add: InputMapModule_execute_def input_def)

lemma InputMapModule_execute_interrupt:
  "stdin w = Interrupt # evs \<Longrightarrow>
   InputMapModule_execute commands w
     = Inl (KeyboardInterrupt, w\<lparr>stdout := stdout w @ ''>: '', stdin := evs\<rparr>)"
  by (simp add: InputMapModule_execute_def input_def)

text \<open>
  C6, as stated, fails at the end of the input: \<^verbatim>\<open>input\<close> raises \<^verbatim>\<open>EOFError\<close> before
  \<^verbatim>\<open>handle_input\<close> is looked up, so the call fails with an error that is not an
  attribute error.
\<close>

theorem InputMapModule_execute_end_of_input:
  "InputMapModule_execute [(''quit'', QuitCommand)]
     \<lparr>modules = [], running = True, stdin = [], stdout = ''''\<rparr>
   = Inl (EOFError, \<lparr>modules = [], running = True, stdin = [], stdout = ''>: ''\<rparr>)"
  by (simp add: InputMapModule_execute_eof)

text \<open>
  C6, amended. Every call of \<^verbatim>\<open>InputMapModule.execute\<close> raises: it writes the prompt
  and nothing else, leaves the running flag and the module list as they are, and never
  returns normally, so \<^verbatim>\<open>process_command\<close> is never reached. Whenever \<^verbatim>\<open>input\<close> returns
  a line, the exception is the \<^verbatim>\<open>AttributeError\<close> for \<^verbatim>\<open>handle_input\<close>.
\<close>

theorem InputMapModule_execute_never_dispatches:
  "(\<exists>e w'. InputMapModule_execute commands w = Inl (e, w')
            \<and> stdout w' = stdout w @ ''>: '' \<and> running w' = running w \<and> modules w' = modules w)
   \<and> (\<forall>s evs. stdin w = Line s # evs
        \<longrightarrow> InputMapModule_execute commands w
              = Inl (AttributeError ''InputMapModule'' ''handle_input'',
                     w\<lparr>stdout := stdout w @ ''>: '', stdin := evs\<rparr>))"
proof
  show "\<exists>e w'. InputMapModule_execute commands w = Inl (e, w')
            \<and> stdout w' = stdout w @ ''>: '' \<and> running w' = running w \<and> modules w' = modules w"
  proof (cases "stdin w")
    case Nil
    then show ?thesis by (simp add: InputMapModule_execute_eof)
  next
    case (Cons ev evs)
    then show ?thesis
      by (cases ev) (simp_all add: InputMapModule_execute_line InputMapModule_execute_interrupt)
  qed
  show "\<forall>s evs. stdin w = Line s # evs
        \<longrightarrow> InputMapModule_execute commands w
              = Inl (AttributeError ''InputMapModule'' ''handle_input'',
                     w\<lparr>stdout := stdout w @ ''>: '', stdin := evs\<rparr>)"
    by (simp add: InputMapModule_execute_line)
qed

theorem InputMapModule_execute_never_dispatches_witness:
  "stdin \<lparr>modules = [], running = True, stdin = [Line ''quit''], stdout = ''''\<rparr>
     = Line ''quit'' # []
   \<and> InputMapModule_execute [(''quit'', QuitCommand)]
       \<lparr>modules = [], running = True, stdin = [Line ''quit''], stdout = ''''\<rparr>
     = Inl (AttributeError ''InputMapModule'' ''handle_input'',
            \<lparr>modules = [], running = True, stdin = [], stdout = ''>: ''\<rparr>)"
  using InputMapModule_execute_never_dispatches
    [of "[(''quit'', QuitCommand)]"
        "\<lparr>modules = [], running = True, stdin = [Line ''quit''], stdout = ''''\<rparr>"]
  by simp

lemma tick_caught:
  "update_modules w = Inl (e, w') \<Longrightarrow> is_Exception e \<Longrightarrow> tick w = Inr (handle_error e w')"
  by (simp add: tick_def)

lemma tick_escapes: "tick w = Inl (e, w') \<Longrightarrow> \<not> is_Exception e"
  by (auto simp: tick_def split: sum.splits if_splits)

lemma run_loop_stopped: "\<not> running w \<Longrightarrow> run_loop w = Some (Inr w)"
  by (subst run_loop.simps) simp

lemma run_loop_escapes: "running w \<Longrightarrow> tick w = Inl ew \<Longrightarrow> run_loop w = Some (Inl ew)"
  by (subst run_loop.simps) simp

lemma run_loop_step: "running w \<Longrightarrow> tick w = Inr w' \<Longrightarrow> run_loop w = run_loop w'"
  by (subst run_loop.simps) simp

lemma run_loop_Inl:
  assumes "run_loop w = Some r"
  shows "\<forall>e w'. r = Inl (e, w') \<longrightarrow> \<not> is_Exception e"
proof (rule run_loop.raw_induct
    [where P = "\<lambda>w r. \<forall>e w'. r = Inl (e, w') \<longrightarrow> \<not> is_Exception e", OF _ assms])
  fix loop :: "world \<Rightarrow> outcome option" and w r
  assume IH: "\<And>x y. loop x = Some y \<Longrightarrow> \<forall>e w'. y = Inl (e, w') \<longrightarrow> \<not> is_Exception e"
  assume body: "(if running w
      then case tick w of Inl ew \<Rightarrow> Some (Inl ew) | Inr w' \<Rightarrow> loop w'
      else Some (Inr w)) = Some r"
  show "\<forall>e w'. r = Inl (e, w') \<longrightarrow> \<not> is_Exception e"
  proof (cases "running w")
    case False
    with body show ?thesis by auto
  next
    case True
    show ?thesis
    proof (cases "tick w")
      case (Inl ew)
      with True body have "r = Inl ew" by simp
      with Inl show ?thesis by (auto dest: tick_escapes)
    next
      case (Inr w1)
      with True body have "loop w1 = Some r" by simp
      then show ?thesis by (rule IH)
    qed
  qed
qed

text \<open>
  What \<^verbatim>\<open>update_modules\<close> raises is what the \<^verbatim>\<open>execute\<close> of one module of the list
  raises, after the modules before it have run.
\<close>

lemma execute_all_raise:
  "execute_all ms1 w = Inr w1 \<Longrightarrow> execute m w1 = Inl ew \<Longrightarrow>
   execute_all (ms1 @ m # ms2) w = Inl ew"
  by (induction ms1 arbitrary: w) (auto split: sum.splits)

lemma execute_all_Inl:
  "execute_all ms w = Inl ew \<Longrightarrow>
   \<exists>ms1 m ms2 w1. ms = ms1 @ m # ms2 \<and> execute_all ms1 w = Inr w1 \<and> execute m w1 = Inl ew"
proof (induction ms arbitrary: w)
  case Nil
  then show ?case by simp
next
  case (Cons a ms)
  show ?case
  proof (cases "execute a w")
    case (Inl ew')
    with Cons.prems have "execute a w = Inl ew" by simp
    then have "a # ms = [] @ a # ms \<and> execute_all [] w = Inr w \<and> execute a w = Inl ew"
      by simp
    then show ?thesis by blast
  next
    case (Inr w2)
    with Cons.prems have "execute_all ms w2 = Inl ew" by simp
    from Cons.IH [OF this] obtain ms1 m ms2 w1 where
      h: "ms = ms1 @ m # ms2" "execute_all ms1 w2 = Inr w1" "execute m w1 = Inl ew"
      by blast
    from h Inr have "a # ms = (a # ms1) @ m # ms2 \<and> execute_all (a # ms1) w = Inr w1
        \<and> execute m w1 = Inl ew"
      by simp
    then show ?thesis by blast
  qed
qed

text \<open>
  C4, amended. Take a running engine and any module of its list whose \<^verbatim>\<open>execute\<close>,
  reached in a tick after the modules before it have run, raises an exception that is an
  instance of \<^verbatim>\<open>Exception\<close>. Then \<^verbatim>\<open>update_modules\<close> raises that exception in the state
  at the raise, the tick catches it, \<^verbatim>\<open>handle_error\<close> prints "An error occurred: " with
  the text of the exception and sets \<open>running\<close> to false, and the loop returns in the
  state the handler left, with no further tick. Every exception out of
  \<^verbatim>\<open>update_modules\<close> is one that the \<^verbatim>\<open>execute\<close> of a module of the list raised in this
  way, and is handled the same. No instance of \<^verbatim>\<open>Exception\<close> ever leaves the loop.
\<close>

theorem run_catches_every_Exception:
  "(running w \<and> modules w = ms1 @ m # ms2 \<and> execute_all ms1 w = Inr w1
      \<and> execute m w1 = Inl (e, w') \<and> is_Exception e
      \<longrightarrow> update_modules w = Inl (e, w')
        \<and> tick w = Inr (handle_error e w')
        \<and> run_loop w = Some (Inr (handle_error e w'))
        \<and> running (handle_error e w') = False
        \<and> stdout (handle_error e w') = print (''An error occurred: '' @ exn_str e) (stdout w'))
   \<and> (running w \<and> update_modules w = Inl (e, w') \<and> is_Exception e
      \<longrightarrow> (\<exists>ms1 m ms2 w1. modules w = ms1 @ m # ms2 \<and> execute_all ms1 w = Inr w1
              \<and> execute m w1 = Inl (e, w'))
        \<and> tick w = Inr (handle_error e w')
        \<and> run_loop w = Some (Inr (handle_error e w'))
        \<and> running (handle_error e w') = False
        \<and> stdout (handle_error e w') = print (''An error occurred: '' @ exn_str e) (stdout w'))
   \<and> (run_loop w = Some (Inl (e, w')) \<longrightarrow> \<not> is_Exception e)"
proof -
  have caught: "tick w = Inr (handle_error e w')
        \<and> run_loop w = Some (Inr (handle_error e w'))
        \<and> running (handle_error e w') = False
        \<and> stdout (handle_error e w') = print (''An error occurred: '' @ exn_str e) (stdout w')"
    if h: "running w" "update_modules w = Inl (e, w')" "is_Exception e"
  proof -
    from h have t: "tick w = Inr (handle_error e w')" by (simp add: tick_caught)
    have stopped: "\<not> running (handle_error e w')" by (simp add: handle_error_def)
    from h t have "run_loop w = run_loop (handle_error e w')" by (simp add: run_loop_step)
    with stopped have "run_loop w = Some (Inr (handle_error e w'))"
      by (simp add: run_loop_stopped)
    with t show ?thesis by (simp add: handle_error_def)
  qed
  have from_module: "update_modules w = Inl (e, w')"
    if "modules w = ms1 @ m # ms2" "execute_all ms1 w = Inr w1" "execute m w1 = Inl (e, w')"
    using that by (simp add: update_modules_def execute_all_raise)
  have to_module: "\<exists>ms1 m ms2 w1. modules w = ms1 @ m # ms2 \<and> execute_all ms1 w = Inr w1
              \<and> execute m w1 = Inl (e, w')"
    if "update_modules w = Inl (e, w')"
    using that execute_all_Inl [of "modules w" w "(e, w')"] by (simp add: update_modules_def)
  have escapes: "\<not> is_Exception e" if "run_loop w = Some (Inl (e, w'))"
    using that run_loop_Inl by blast
  from caught from_module to_module escapes show ?thesis by blast
qed

lemma interrupted_run:
  "run_loop \<lparr>modules = [InputMapModule [(''quit'', QuitCommand)]], running = True,
            stdin = [Interrupt], stdout = out\<rparr>
   = Some (Inl (KeyboardInterrupt,
                \<lparr>modules = [InputMapModule [(''quit'', QuitCommand)]], running = True,
                 stdin = [], stdout = out @ ''>: ''\<rparr>))"
  by (rule run_loop_escapes)
     (simp_all add: tick_def update_modules_def InputMapModule_execute_interrupt)

text \<open>
  C4, as stated, fails for an exception that is not an instance of \<^verbatim>\<open>Exception\<close>: an
  interrupt while \<^verbatim>\<open>InputMapModule.execute\<close> waits in \<^verbatim>\<open>input\<close> raises
  \<^verbatim>\<open>KeyboardInterrupt\<close> out of \<^verbatim>\<open>update_modules\<close>, the clause \<^verbatim>\<open>except Exception\<close> lets it
  pass, and it leaves \<^verbatim>\<open>run\<close> with \<open>running\<close> still true and no error message printed.
\<close>

theorem run_lets_interrupt_escape:
  "update_modules \<lparr>modules = [InputMapModule [(''quit'', QuitCommand)]], running = True,
                   stdin = [Interrupt], stdout = ''''\<rparr>
     = Inl (KeyboardInterrupt,
            \<lparr>modules = [InputMapModule [(''quit'', QuitCommand)]], running = True,
             stdin = [], stdout = ''>: ''\<rparr>)
   \<and> run \<lparr>modules = [InputMapModule [(''quit'', QuitCommand)]], running = True,
          stdin = [Interrupt], stdout = ''''\<rparr>
     = Some (Inl (KeyboardInterrupt,
                  \<lparr>modules = [InputMapModule [(''quit'', QuitCommand)]], running = True,
                   stdin = [],
                   stdout = print (''Game starting. Type '' @ quoted ''quit'' @ '' to exit.'') ''''
                            @ ''>: ''\<rparr>))"
  by (simp add: update_modules_def InputMapModule_execute_interrupt run_def interrupted_run)

theorem run_catches_every_Exception_witness:
  "running \<lparr>modules = [MapGridModule \<lparr>size_x = 1, size_y = 1, map_grid = [[None]]\<rparr>,
                       InputMapModule [(''quit'', QuitCommand)]],
            running = True, stdin = [Line ''quit''], stdout = ''''\<rparr>
   \<and> execute_all [MapGridModule \<lparr>size_x = 1, size_y = 1, map_grid = [[None]]\<rparr>]
        \<lparr>modules = [MapGridModule \<lparr>size_x = 1, size_y = 1, map_grid = [[None]]\<rparr>,
                    InputMapModule [(''quit'', QuitCommand)]],
         running = True, stdin = [Line ''quit''], stdout = ''''\<rparr>
       = Inr \<lparr>modules = [MapGridModule \<lparr>size_x = 1, size_y = 1, map_grid = [[None]]\<rparr>,
                         InputMapModule [(''quit'', QuitCommand)]],
              running = True, stdin = [Line ''quit''],
              stdout = print ''Empty'' (print ''Map Grid:'' '''')\<rparr>
   \<and> execute (InputMapModule [(''quit'', QuitCommand)])
        \<lparr>modules = [MapGridModule \<lparr>size_x = 1, size_y = 1, map_grid = [[None]]\<rparr>,
                    InputMapModule [(''quit'', QuitCommand)]],
         running = True, stdin = [Line ''quit''],
         stdout = print ''Empty'' (print ''Map Grid:'' '''')\<rparr>
       = Inl (AttributeError ''InputMapModule'' ''handle_input'',
              \<lparr>modules = [MapGridModule \<lparr>size_x = 1, size_y = 1, map_grid = [[None]]\<rparr>,
                          InputMapModule [(''quit'', QuitCommand)]],
               running = True, stdin = [],
               stdout = print ''Empty'' (print ''Map Grid:'' '''') @ ''>: ''\<rparr>)
   \<and> is_Exception (AttributeError ''InputMapModule'' ''handle_input'')
   \<and> run_loop \<lparr>modules = [MapGridModule \<lparr>size_x = 1, size_y = 1, map_grid = [[None]]\<rparr>,
                          InputMapModule [(''quit'', QuitCommand)]],
               running = True, stdin = [Line ''quit''], stdout = ''''\<rparr>
       = Some (Inr \<lparr>modules = [MapGridModule \<lparr>size_x = 1, size_y = 1, map_grid = [[None]]\<rparr>,
                               InputMapModule [(''quit'', QuitCommand)]],
                    running = False, stdin = [],
                    stdout = print (''An error occurred: '' @ quoted ''InputMapModule''
                                    @ '' object has no attribute '' @ quoted ''handle_input'')
                               (print ''Empty'' (print ''Map Grid:'' '''') @ ''>: '')\<rparr>)
   \<and> run_loop \<lparr>modules = [InputMapModule [(''quit'', QuitCommand)]], running = True,
               stdin = [Interrupt], stdout = ''''\<rparr>
       = Some (Inl (KeyboardInterrupt,
                    \<lparr>modules = [InputMapModule [(''quit'', QuitCommand)]], running = True,
                     stdin = [], stdout = ''>: ''\<rparr>))
   \<and> \<not> is_Exception KeyboardInterrupt"
proof -
  let ?g = "MapGridModule \<lparr>size_x = 1, size_y = 1, map_grid = [[None]]\<rparr>"
  let ?m = "InputMapModule [(''quit'', QuitCommand)]"
  let ?w = "\<lparr>modules = [?g, ?m], running = True, stdin = [Line ''quit''], stdout = ''''\<rparr>"
  let ?w1 = "\<lparr>modules = [?g, ?m], running = True, stdin = [Line ''quit''],
             stdout = print ''Empty'' (print ''Map Grid:'' '''')\<rparr>"
  let ?w' = "\<lparr>modules = [?g, ?m], running = True, stdin = [],
             stdout = print ''Empty'' (print ''Map Grid:'' '''') @ ''>: ''\<rparr>"
  let ?e = "AttributeError ''InputMapModule'' ''handle_input''"
  let ?i = "\<lparr>modules = [?m], running = True, stdin = [Interrupt], stdout = ''''\<rparr>"
  let ?i' = "\<lparr>modules = [?m], running = True, stdin = [], stdout = ''>: ''\<rparr>"
  have r: "running ?w" by simp
  have ms: "modules ?w = [?g] @ ?m # []" by simp
  have a: "execute_all [?g] ?w = Inr ?w1"
    by (simp add: MapGridModule_execute_def)
  have x: "execute ?m ?w1 = Inl (?e, ?w')"
    by (simp add: InputMapModule_execute_line)
  have ex: "is_Exception ?e" by simp
  have i: "run_loop ?i = Some (Inl (KeyboardInterrupt, ?i'))"
    using interrupted_run [of "''''"] by simp
  from r ms a x ex run_catches_every_Exception [of ?w "[?g]" ?m "[]" ?w1 ?e ?w']
  have l: "run_loop ?w = Some (Inr (handle_error ?e ?w'))" by blast
  from i run_catches_every_Exception [of ?i _ _ _ _ KeyboardInterrupt ?i']
  have k: "\<not> is_Exception KeyboardInterrupt" by blast
  from r a x ex l i k show ?thesis by (simp add: handle_error_def)
qed

text \<open>
  C5. The claim is that the engine wired by \<^verbatim>\<open>main\<close>, given the input "quit", stops
  through the effect of the quit command. \<^verbatim>\<open>main\<close> with the one input line "quit"
  returns with \<open>running\<close> false, but the first tick already ends in
  \<^verbatim>\<open>MapGridModule.execute\<close> raising on \<^verbatim>\<open>room.name\<close>: \<^verbatim>\<open>handle_error\<close> prints the error
  and stops the engine, the input line is still unread, and the text of
  \<^verbatim>\<open>QuitCommand.update\<close> is not printed.
\<close>

theorem main_quit:
  "main [Line ''quit''] =
     Some (Inr \<lparr>modules =
                  [MapGridModule
                     \<lparr>size_x = 2, size_y = 2,
                      map_grid =
                        [[Some (RoomPiece ''Lab 1'' ''A dark, spooky forest with tall trees.''),
                          Some (RoomPiece ''Lab 2'' ''A calm river flows here.'')],
                         [None, None]]\<rparr>,
                   InputMapModule [(''quit'', QuitCommand)]],
                running = False,
                stdin = [Line ''quit''],
                stdout =
                  print (''An error occurred: '' @ quoted ''RoomPiece''
                         @ '' object has no attribute '' @ quoted ''name'')
                   (print ''Map Grid:''
                     (print (''Game starting. Type '' @ quoted ''quit'' @ '' to exit.'')
                       (print (''Room '' @ quoted ''Lab 2'' @ '' added at (1, 0).'')
                         (print (''Room '' @ quoted ''Lab 1'' @ '' added at (0, 0).'') ''''))))\<rparr>)"
  by code_simp

end
